theory Spec2Isabelle
  imports Complex_Main "HOL-Library.Monad_Syntax"
begin

section \<open>Numbers, vectors and quaternions\<close>

text \<open>
  JavaScript numbers are modelled as real numbers: every arithmetic operation is exact,
  and the values Infinity and NaN do not occur among the kinematic quantities. Where the
  code can meet \<open>undefined\<close> (the optional chains of \<open>objectRadius\<close>), the
  values are modelled by the type \<open>jsval\<close> below, which has NaN. Where a property
  turns on the rounding of the code's double arithmetic (the speed limit of the
  spacecraft), the statements concerned are given a second time with every operation
  rounded, in the section on double arithmetic below.

  \<open>THREE.Vector3\<close> and \<open>THREE.Quaternion\<close> with the methods the update functions
  call. A method that mutates \<open>this\<close> and returns it is a function to the new value.
\<close>

datatype vec3 = Vector3 (vx: real) (vy: real) (vz: real)

datatype quaternion = Quaternion (qx: real) (qy: real) (qz: real) (qw: real)

datatype euler = Euler (ex: real) (ey: real) (ez: real)

definition addV :: "vec3 \<Rightarrow> vec3 \<Rightarrow> vec3" where
  "addV a b = Vector3 (vx a + vx b) (vy a + vy b) (vz a + vz b)"

definition subVectors :: "vec3 \<Rightarrow> vec3 \<Rightarrow> vec3" where
  "subVectors a b = Vector3 (vx a - vx b) (vy a - vy b) (vz a - vz b)"

definition multiplyScalar :: "vec3 \<Rightarrow> real \<Rightarrow> vec3" where
  "multiplyScalar v k = Vector3 (vx v * k) (vy v * k) (vz v * k)"

definition divideScalar :: "vec3 \<Rightarrow> real \<Rightarrow> vec3" where
  "divideScalar v k = multiplyScalar v (1 / k)"

definition dot :: "vec3 \<Rightarrow> vec3 \<Rightarrow> real" where
  "dot a b = vx a * vx b + vy a * vy b + vz a * vz b"

definition lengthSq :: "vec3 \<Rightarrow> real" where
  "lengthSq v = vx v * vx v + vy v * vy v + vz v * vz v"

definition lengthV :: "vec3 \<Rightarrow> real" where
  "lengthV v = sqrt (vx v * vx v + vy v * vy v + vz v * vz v)"

text \<open>\<open>normalize\<close> is \<open>this.divideScalar(this.length() || 1)\<close>: a zero length is replaced by 1.\<close>

definition normalizeV :: "vec3 \<Rightarrow> vec3" where
  "normalizeV v = divideScalar v (if lengthV v = 0 then 1 else lengthV v)"

definition crossVectors :: "vec3 \<Rightarrow> vec3 \<Rightarrow> vec3" where
  "crossVectors a b =
     Vector3 (vy a * vz b - vz a * vy b) (vz a * vx b - vx a * vz b) (vx a * vy b - vy a * vx b)"

definition distanceToSquared :: "vec3 \<Rightarrow> vec3 \<Rightarrow> real" where
  "distanceToSquared a b =
     (let dx = vx a - vx b; dy = vy a - vy b; dz = vz a - vz b in dx * dx + dy * dy + dz * dz)"

definition distanceTo :: "vec3 \<Rightarrow> vec3 \<Rightarrow> real" where
  "distanceTo a b = sqrt (distanceToSquared a b)"

definition equalsV :: "vec3 \<Rightarrow> vec3 \<Rightarrow> bool" where
  "equalsV a b \<longleftrightarrow> vx b = vx a \<and> vy b = vy a \<and> vz b = vz a"

definition clamp :: "real \<Rightarrow> real \<Rightarrow> real \<Rightarrow> real" where
  "clamp v lo hi = max lo (min hi v)"

text \<open>\<open>angleTo\<close> returns a right angle when either vector has length zero.\<close>

definition angleTo :: "vec3 \<Rightarrow> vec3 \<Rightarrow> real" where
  "angleTo a b =
     (let denominator = sqrt (lengthSq a * lengthSq b)
      in if denominator = 0 then pi / 2
         else arccos (clamp (dot a b / denominator) (- 1) 1))"

definition degToRad :: "real \<Rightarrow> real" where
  "degToRad degrees = degrees * (pi / 180)"

definition Math_sign :: "real \<Rightarrow> real" where
  "Math_sign r = (if r > 0 then 1 else if r < 0 then - 1 else 0)"

text \<open>\<open>Vector3.applyQuaternion\<close>: \<open>v + q.w * t + cross(q.xyz, t)\<close> with \<open>t = 2 * cross(q.xyz, v)\<close>.\<close>

definition applyQuaternion :: "vec3 \<Rightarrow> quaternion \<Rightarrow> vec3" where
  "applyQuaternion v q =
     (let tx = 2 * (qy q * vz v - qz q * vy v);
          ty = 2 * (qz q * vx v - qx q * vz v);
          tz = 2 * (qx q * vy v - qy q * vx v)
      in Vector3 (vx v + qw q * tx + qy q * tz - qz q * ty)
                 (vy v + qw q * ty + qz q * tx - qx q * tz)
                 (vz v + qw q * tz + qx q * ty - qy q * tx))"

definition setFromAxisAngle :: "vec3 \<Rightarrow> real \<Rightarrow> quaternion" where
  "setFromAxisAngle axis angle =
     (let halfAngle = angle / 2; s = sin halfAngle
      in Quaternion (vx axis * s) (vy axis * s) (vz axis * s) (cos halfAngle))"

definition multiplyQuaternions :: "quaternion \<Rightarrow> quaternion \<Rightarrow> quaternion" where
  "multiplyQuaternions a b =
     Quaternion (qx a * qw b + qw a * qx b + qy a * qz b - qz a * qy b)
                (qy a * qw b + qw a * qy b + qz a * qx b - qx a * qz b)
                (qz a * qw b + qw a * qz b + qx a * qy b - qy a * qx b)
                (qw a * qw b - qx a * qx b - qy a * qy b - qz a * qz b)"

text \<open>\<open>Quaternion.setFromEuler\<close> for the default rotation order XYZ.\<close>

definition setFromEuler :: "euler \<Rightarrow> quaternion" where
  "setFromEuler e =
     (let c1 = cos (ex e / 2); c2 = cos (ey e / 2); c3 = cos (ez e / 2);
          s1 = sin (ex e / 2); s2 = sin (ey e / 2); s3 = sin (ez e / 2)
      in Quaternion (s1 * c2 * c3 + c1 * s2 * s3)
                    (c1 * s2 * c3 - s1 * c2 * s3)
                    (c1 * c2 * s3 + s1 * s2 * c3)
                    (c1 * c2 * c3 - s1 * s2 * s3))"

text \<open>\<open>Math.atan2\<close> on real numbers (no signed zero).\<close>

definition atan2 :: "real \<Rightarrow> real \<Rightarrow> real" where
  "atan2 y x =
     (if 0 < x then arctan (y / x)
      else if x < 0 then (if 0 \<le> y then arctan (y / x) + pi else arctan (y / x) - pi)
      else if 0 < y then pi / 2
      else if y < 0 then - (pi / 2)
      else 0)"

text \<open>
  \<open>THREE.Matrix4\<close>, restricted to the affine matrices a scene graph holds: the four
  columns without the last row, which is always \<open>(0, 0, 0, 1)\<close>.
\<close>

datatype matrix4 = Matrix4 (col1: vec3) (col2: vec3) (col3: vec3) (col4: vec3)

definition compose :: "vec3 \<Rightarrow> quaternion \<Rightarrow> vec3 \<Rightarrow> matrix4" where
  "compose p q sc =
     (let x = qx q; y = qy q; z = qz q; w = qw q;
          x2 = x + x; y2 = y + y; z2 = z + z;
          xx = x * x2; xy = x * y2; xz = x * z2;
          yy = y * y2; yz = y * z2; zz = z * z2;
          wx = w * x2; wy = w * y2; wz = w * z2;
          sx = vx sc; sy = vy sc; sz = vz sc
      in Matrix4 (Vector3 ((1 - (yy + zz)) * sx) ((xy + wz) * sx) ((xz - wy) * sx))
                 (Vector3 ((xy - wz) * sy) ((1 - (xx + zz)) * sy) ((yz + wx) * sy))
                 (Vector3 ((xz + wy) * sz) ((yz - wx) * sz) ((1 - (xx + yy)) * sz))
                 p)"

definition applyLinear :: "matrix4 \<Rightarrow> vec3 \<Rightarrow> vec3" where
  "applyLinear m v =
     Vector3 (vx (col1 m) * vx v + vx (col2 m) * vy v + vx (col3 m) * vz v)
             (vy (col1 m) * vx v + vy (col2 m) * vy v + vy (col3 m) * vz v)
             (vz (col1 m) * vx v + vz (col2 m) * vy v + vz (col3 m) * vz v)"

definition multiplyMatrices :: "matrix4 \<Rightarrow> matrix4 \<Rightarrow> matrix4" where
  "multiplyMatrices a b =
     Matrix4 (applyLinear a (col1 b)) (applyLinear a (col2 b)) (applyLinear a (col3 b))
             (addV (applyLinear a (col4 b)) (col4 a))"

text \<open>
  \<open>Euler.setFromQuaternion\<close> for the order XYZ: the rotation matrix of the quaternion,
  then \<open>setFromRotationMatrix\<close>.
\<close>

definition setFromQuaternion :: "quaternion \<Rightarrow> euler" where
  "setFromQuaternion q =
     (let m = compose (Vector3 0 0 0) q (Vector3 1 1 1);
          m11 = vx (col1 m); m12 = vx (col2 m); m13 = vx (col3 m);
          m22 = vy (col2 m); m23 = vy (col3 m);
          m32 = vz (col2 m); m33 = vz (col3 m)
      in if \<bar>m13\<bar> < 0.9999999
         then Euler (atan2 (- m23) m33) (arcsin (clamp m13 (- 1) 1)) (atan2 (- m12) m11)
         else Euler (atan2 m32 m22) (arcsin (clamp m13 (- 1) 1)) 0)"

section \<open>The scene graph\<close>

text \<open>
  Objects of the scene (\<open>THREE.Object3D\<close>, \<open>THREE.Mesh\<close>) live in a store indexed by
  addresses: a pivot is shared between the body record that names it and the mesh whose
  parent it is. An object holds its local transform, its parent and, for a mesh, its
  geometry. \<open>rotation\<close> and \<open>quaternion\<close> are kept in step by the library: writing one
  recomputes the other. The cached matrices are not stored; they are recomputed from the
  local transforms as \<open>updateWorldMatrix(true, false)\<close> does before any read.
\<close>

type_synonym addr = nat

datatype sphere = Sphere (center: vec3) (radius: real)

datatype geometry = BufferGeometry (boundingSphere: "sphere option")

record object3d =
  position :: vec3
  rotation :: euler
  quaternion :: quaternion
  scale :: vec3
  parent :: "addr option"
  geometry :: "geometry option"

text \<open>
  The state the update functions work on: the store of scene objects and the three
  module-level scratch vectors of \<open>simulationUpdate.js\<close>, which every call reuses.
\<close>

record sim =
  objects :: "addr \<Rightarrow> object3d"
  updateShipForward :: vec3
  updateTempVec3 :: vec3
  updateTargetDirection :: vec3

datatype vecref = ShipForwardRef | TempVec3Ref | TargetDirectionRef

definition deref :: "sim \<Rightarrow> vecref \<Rightarrow> vec3" where
  "deref s r = (case r of ShipForwardRef \<Rightarrow> updateShipForward s
                | TempVec3Ref \<Rightarrow> updateTempVec3 s
                | TargetDirectionRef \<Rightarrow> updateTargetDirection s)"

definition updateMatrix :: "object3d \<Rightarrow> matrix4" where
  "updateMatrix ob = compose (position ob) (quaternion ob) (scale ob)"

text \<open>
  \<open>matrixWorld\<close> after \<open>updateWorldMatrix(true, false)\<close>: the parent's world matrix times
  the local matrix. On a cyclic parent chain the library recurses for ever; the model
  has no result there.
\<close>

partial_function (option) matrixWorld :: "(addr \<Rightarrow> object3d) \<Rightarrow> addr \<Rightarrow> matrix4 option" where
  "matrixWorld objs a =
     (case parent (objs a) of
        None \<Rightarrow> Some (updateMatrix (objs a))
      | Some p \<Rightarrow>
          Option.bind (matrixWorld objs p)
            (\<lambda>m. Some (multiplyMatrices m (updateMatrix (objs a)))))"

definition getWorldPosition :: "(addr \<Rightarrow> object3d) \<Rightarrow> addr \<Rightarrow> vec3 option" where
  "getWorldPosition objs a = map_option col4 (matrixWorld objs a)"

text \<open>\<open>obj.rotation.y += d\<close>: the Euler angle is written and the quaternion follows.\<close>

definition addRotationY :: "addr \<Rightarrow> real \<Rightarrow> sim \<Rightarrow> sim" where
  "addRotationY a d s =
     (let ob = objects s a;
          r = Euler (ex (rotation ob)) (ey (rotation ob) + d) (ez (rotation ob))
      in s\<lparr>objects := (objects s)(a := ob\<lparr>rotation := r, quaternion := setFromEuler r\<rparr>)\<rparr>)"

text \<open>\<open>obj.rotateY(angle)\<close>: the quaternion is multiplied on the right and the Euler angles follow.\<close>

definition rotateY :: "addr \<Rightarrow> real \<Rightarrow> sim \<Rightarrow> sim" where
  "rotateY a angle s =
     (let ob = objects s a;
          q = multiplyQuaternions (quaternion ob) (setFromAxisAngle (Vector3 0 1 0) angle)
      in s\<lparr>objects := (objects s)(a := ob\<lparr>rotation := setFromQuaternion q, quaternion := q\<rparr>)\<rparr>)"

section \<open>Values that may be undefined\<close>

text \<open>
  The JavaScript values \<open>objectRadius\<close> can produce: \<open>undefined\<close>, \<open>null\<close>, a number,
  or NaN. \<open>a ?? b\<close> yields \<open>b\<close> only when \<open>a\<close> is \<open>undefined\<close> or \<open>null\<close>; the
  arithmetic and comparison operators first convert their operands to numbers, where
  \<open>undefined\<close> becomes NaN and \<open>null\<close> becomes 0, and any comparison with NaN is false.
\<close>

datatype jsval = Undefined | Null | Num real | NaN

definition nullish :: "jsval \<Rightarrow> jsval \<Rightarrow> jsval" where
  "nullish a b = (case a of Undefined \<Rightarrow> b | Null \<Rightarrow> b | Num r \<Rightarrow> Num r | NaN \<Rightarrow> NaN)"

definition toNumber :: "jsval \<Rightarrow> real option" where
  "toNumber a = (case a of Undefined \<Rightarrow> None | Null \<Rightarrow> Some 0 | Num r \<Rightarrow> Some r | NaN \<Rightarrow> None)"

definition jsTimes :: "jsval \<Rightarrow> jsval \<Rightarrow> jsval" where
  "jsTimes a b =
     (case toNumber a of
        None \<Rightarrow> NaN
      | Some x \<Rightarrow> (case toNumber b of None \<Rightarrow> NaN | Some y \<Rightarrow> Num (x * y)))"

definition jsGreater :: "jsval \<Rightarrow> jsval \<Rightarrow> bool" where
  "jsGreater a b =
     (case toNumber a of
        None \<Rightarrow> False
      | Some x \<Rightarrow> (case toNumber b of None \<Rightarrow> False | Some y \<Rightarrow> x > y))"

text \<open>
  The argument of \<open>objectRadius\<close> is any value: \<open>None\<close> is \<open>null\<close> or \<open>undefined\<close>, and
  an object is given by the two properties the function reads, each of which may be
  missing. A geometry's \<open>boundingSphere\<close> is \<open>null\<close> until it has been computed.
\<close>

datatype jsobject = JsObject (geometryOf: "geometry option") (scaleOf: "vec3 option")

definition asObject :: "object3d \<Rightarrow> jsobject" where
  "asObject ob = JsObject (geometry ob) (Some (scale ob))"

text \<open>
  \<open>obj?.geometry?.boundingSphere?.radius ?? (obj?.scale?.x * BASE_PLANET_RADIUS) ?? 1\<close>.
  The constant \<open>BASE_PLANET_RADIUS\<close> comes from \<open>constants.js\<close> and is a parameter here.
\<close>

definition objectRadius :: "real \<Rightarrow> jsobject option \<Rightarrow> jsval" where
  "objectRadius BASE_PLANET_RADIUS obj =
     nullish
       (nullish
          (case obj of
             None \<Rightarrow> Undefined
           | Some ob \<Rightarrow>
               (case geometryOf ob of
                  None \<Rightarrow> Undefined
                | Some g \<Rightarrow>
                    (case boundingSphere g of None \<Rightarrow> Undefined | Some sp \<Rightarrow> Num (radius sp))))
          (jsTimes
             (case obj of
                None \<Rightarrow> Undefined
              | Some ob \<Rightarrow> (case scaleOf ob of None \<Rightarrow> Undefined | Some sc \<Rightarrow> Num (vx sc)))
             (Num BASE_PLANET_RADIUS)))
       (Num 1)"

section \<open>Celestial bodies\<close>

text \<open>
  A body record \<open>{ mesh, pivot, speed, axialSpeed, moons }\<close>. \<open>None\<close> for \<open>mesh\<close>,
  \<open>pivot\<close> or \<open>moons\<close> is a missing or null property; \<open>None\<close> for a speed is a value
  whose \<open>typeof\<close> is not \<open>'number'\<close>.
\<close>

datatype body =
  Body (mesh: "addr option") (pivot: "addr option") (speed: "real option")
       (axialSpeed: "real option") (moons: "body list option")

definition updateMoon :: "real \<Rightarrow> sim \<Rightarrow> body \<Rightarrow> sim" where
  "updateMoon delta s moon =
     (let s1 = (case pivot moon of
                  None \<Rightarrow> s
                | Some p \<Rightarrow> (case speed moon of None \<Rightarrow> s | Some v \<Rightarrow> addRotationY p (v * delta) s));
          s2 = (case body.mesh moon of
                  None \<Rightarrow> s1
                | Some m \<Rightarrow>
                    (case axialSpeed moon of None \<Rightarrow> s1 | Some v \<Rightarrow> addRotationY m (v * delta) s1))
      in s2)"

definition updateBody :: "real \<Rightarrow> sim \<Rightarrow> body \<Rightarrow> sim" where
  "updateBody delta s b =
     (let s1 = (case pivot b of
                  None \<Rightarrow> s
                | Some p \<Rightarrow> (case speed b of None \<Rightarrow> s | Some v \<Rightarrow> addRotationY p (v * delta) s));
          s2 = (case body.mesh b of
                  None \<Rightarrow> s1
                | Some m \<Rightarrow>
                    (case axialSpeed b of None \<Rightarrow> s1 | Some v \<Rightarrow> addRotationY m (v * delta) s1));
          s3 = (case moons b of None \<Rightarrow> s2 | Some ms \<Rightarrow> foldl (updateMoon delta) s2 ms)
      in s3)"

definition updateCelestials :: "body list \<Rightarrow> real \<Rightarrow> bool \<Rightarrow> sim \<Rightarrow> sim" where
  "updateCelestials celestialBodies delta isPaused s =
     (if isPaused then s else foldl (updateBody delta) s celestialBodies)"

text \<open>
  \<open>calculateFuturePosition\<close>. The result is \<open>None\<close> only where \<open>getWorldPosition\<close> has
  no result.
\<close>

definition calculateFuturePosition :: "body option \<Rightarrow> real \<Rightarrow> sim \<Rightarrow> vec3 option" where
  "calculateFuturePosition bd timeAhead s =
     (case bd of
        None \<Rightarrow> Some (Vector3 0 0 0)
      | Some b \<Rightarrow>
          (case pivot b of
             None \<Rightarrow> Some (Vector3 0 0 0)
           | Some p \<Rightarrow>
               (case speed b of
                  None \<Rightarrow> Some (Vector3 0 0 0)
                | Some v \<Rightarrow>
                    (case body.mesh b of
                       None \<Rightarrow> Some (Vector3 0 0 0)
                     | Some m \<Rightarrow>
                         (let currentAngle = ey (rotation (objects s p));
                              futureAngle = currentAngle + v * timeAhead;
                              distance = vx (position (objects s m));
                              futureX = cos futureAngle * distance;
                              futureZ = sin futureAngle * distance
                          in case getWorldPosition (objects s) p of
                               None \<Rightarrow> None
                             | Some pivotPosition \<Rightarrow>
                                 Some (Vector3 (vx pivotPosition + futureX) (vy pivotPosition)
                                         (vz pivotPosition + futureZ)))))))"

section \<open>The spacecraft\<close>

record spacecraft =
  mesh :: addr
  velocity :: vec3
  turnSpeed :: real
  thrustPower :: real
  drag :: real
  maxSpeed :: real

record inputState =
  thrust :: bool
  turnLeft :: bool
  turnRight :: bool

definition setPosition :: "addr \<Rightarrow> vec3 \<Rightarrow> sim \<Rightarrow> sim" where
  "setPosition a p s = s\<lparr>objects := (objects s)(a := (objects s a)\<lparr>position := p\<rparr>)\<rparr>"

text \<open>
  \<open>updateSpacecraft\<close>. The spacecraft record is mutated in place (its velocity) and
  is returned with the state, which holds its mesh. The arithmetic here is exact: this
  definition gives the order and the effect of the statements, not the rounding of
  their results, for which see \<open>updateVelocity64\<close>.
\<close>

definition updateSpacecraft ::
  "spacecraft option \<Rightarrow> inputState \<Rightarrow> real \<Rightarrow> sim \<Rightarrow> spacecraft option \<times> sim" where
  "updateSpacecraft ship inp delta s =
     (case ship of
        None \<Rightarrow> (None, s)
      | Some sc \<Rightarrow>
          (let turnAmount = 0;
               turnAmount = (if turnLeft inp then turnAmount + turnSpeed sc * delta else turnAmount);
               turnAmount = (if turnRight inp then turnAmount - turnSpeed sc * delta else turnAmount);
               s1 = rotateY (spacecraft.mesh sc) turnAmount s;
               (sc2, s2) =
                 (if thrust inp
                  then (let sa = s1\<lparr>updateShipForward :=
                                      applyQuaternion (Vector3 0 0 (- 1))
                                        (quaternion (objects s1 (spacecraft.mesh sc)))\<rparr>;
                            sb = sa\<lparr>updateTempVec3 :=
                                      multiplyScalar (updateShipForward sa) (thrustPower sc * delta)\<rparr>
                        in (sc\<lparr>velocity := addV (velocity sc) (updateTempVec3 sb)\<rparr>, sb))
                  else (sc, s1));
               sc3 = sc2\<lparr>velocity := multiplyScalar (velocity sc2) (drag sc2)\<rparr>;
               sc4 = (if lengthSq (velocity sc3) > maxSpeed sc3 * maxSpeed sc3
                      then sc3\<lparr>velocity :=
                                 multiplyScalar (normalizeV (velocity sc3)) (maxSpeed sc3)\<rparr>
                      else sc3);
               s3 = s2\<lparr>updateTempVec3 := multiplyScalar (velocity sc4) delta\<rparr>;
               s4 = setPosition (spacecraft.mesh sc4)
                      (addV (position (objects s3 (spacecraft.mesh sc4))) (updateTempVec3 s3)) s3
           in (Some sc4, s4)))"

section \<open>The velocity of the spacecraft in double arithmetic\<close>














section \<open>The trajectory line\<close>

text \<open>
  The line object is modelled by the vertices \<open>setFromPoints\<close> gives its geometry. The
  loop \<open>while (trajectoryPoints.length > maxPoints) trajectoryPoints.pop()\<close> does not end
  when \<open>maxPoints\<close> is negative, since \<open>pop\<close> leaves an empty array empty.
\<close>

datatype line = Line (vertices: "vec3 list")

partial_function (option) popWhileLonger :: "vec3 list \<Rightarrow> real \<Rightarrow> vec3 list option" where
  "popWhileLonger pts maxPoints =
     (if real (length pts) > maxPoints then popWhileLonger (butlast pts) maxPoints
      else Some pts)"

definition updateTrajectoryLine ::
  "spacecraft option \<Rightarrow> line option \<Rightarrow> vec3 list option \<Rightarrow> real \<Rightarrow> sim
     \<Rightarrow> (line option \<times> vec3 list option) option" where
  "updateTrajectoryLine ship trajectoryLine trajectoryPoints maxPoints s =
     (case ship of
        None \<Rightarrow> Some (trajectoryLine, trajectoryPoints)
      | Some sc \<Rightarrow>
          (case trajectoryLine of
             None \<Rightarrow> Some (trajectoryLine, trajectoryPoints)
           | Some lineObject \<Rightarrow>
               (case trajectoryPoints of
                  None \<Rightarrow> Some (trajectoryLine, trajectoryPoints)
                | Some pts \<Rightarrow>
                    (let currentPosition = position (objects s (spacecraft.mesh sc))
                     in if length pts = 0 \<or> \<not> equalsV (hd pts) currentPosition
                        then Option.bind (popWhileLonger (currentPosition # pts) maxPoints)
                               (\<lambda>pts'. Some (Some (Line pts'), Some pts'))
                        else Some (trajectoryLine, trajectoryPoints)))))"

section \<open>The autopilot\<close>

text \<open>
  \<open>updateAiPilot\<close>. \<open>getWorldPosition(_updateTempVec3)\<close> writes the target's position
  into the scratch vector and returns that same vector, so \<open>targetPos\<close> is a reference to
  \<open>_updateTempVec3\<close>; \<open>crossVectors\<close> later writes the same vector, and \<open>cross\<close> is a
  second reference to it. Both are read through \<open>deref\<close> at the place of each use.
  After the first test the spacecraft and the target are present; the \<open>None\<close> branches
  of the two case distinctions that take them apart are never reached.
\<close>

definition updateAiPilot ::
  "real \<Rightarrow> spacecraft option \<Rightarrow> addr option \<Rightarrow> inputState \<Rightarrow> real \<Rightarrow> bool \<Rightarrow> sim
     \<Rightarrow> (inputState \<times> sim) option" where
  "updateAiPilot BASE_PLANET_RADIUS ship targetObject inp delta isAiActive s =
     (if \<not> isAiActive \<or> ship = None \<or> targetObject = None
      then Some (inp\<lparr>thrust := False, turnLeft := False, turnRight := False\<rparr>, s)
      else
        (case ship of
           None \<Rightarrow> Some (inp\<lparr>thrust := False, turnLeft := False, turnRight := False\<rparr>, s)
         | Some sc \<Rightarrow>
        (case targetObject of
           None \<Rightarrow> Some (inp\<lparr>thrust := False, turnLeft := False, turnRight := False\<rparr>, s)
         | Some tgt \<Rightarrow>
        (case getWorldPosition (objects s) tgt of
           None \<Rightarrow> None
         | Some worldPosition \<Rightarrow>
             (let shipPos = position (objects s (spacecraft.mesh sc));
                  s1 = s\<lparr>updateTempVec3 := worldPosition\<rparr>;
                  targetPos = TempVec3Ref;
                  s2 = s1\<lparr>updateTargetDirection :=
                            normalizeV (subVectors (deref s1 targetPos) shipPos)\<rparr>;
                  s3 = s2\<lparr>updateShipForward :=
                            applyQuaternion (Vector3 0 0 (- 1)) (quaternion (objects s2 (spacecraft.mesh sc)))\<rparr>;
                  angle = angleTo (updateShipForward s3) (updateTargetDirection s3);
                  shipUp = applyQuaternion (Vector3 0 1 0) (quaternion (objects s3 (spacecraft.mesh sc)));
                  s4 = s3\<lparr>updateTempVec3 :=
                            crossVectors (updateShipForward s3) (updateTargetDirection s3)\<rparr>;
                  cross = TempVec3Ref;
                  turnDirectionSign = Math_sign (dot (deref s4 cross) shipUp);
                  angleThreshold = degToRad 5;
                  distanceToTarget = distanceTo shipPos (deref s4 targetPos);
                  inp1 = inp\<lparr>turnLeft := False, turnRight := False, thrust := False\<rparr>;
                  inp2 =
                    (if angle > angleThreshold
                     then (if turnDirectionSign > 0 then inp1\<lparr>turnLeft := True\<rparr>
                           else inp1\<lparr>turnRight := True\<rparr>)
                     else (if jsGreater (Num distanceToTarget)
                                (jsTimes
                                   (objectRadius BASE_PLANET_RADIUS
                                      (Some (asObject (objects s4 tgt))))
                                   (Num 2.0))
                           then inp1\<lparr>thrust := True\<rparr>
                           else inp1))
              in Some (inp2, s4))))))"

section \<open>Runs of the update functions\<close>


text \<open>
  A sequence of calls of \<open>updateTrajectoryLine\<close> with one \<open>maxPoints\<close>, one call for each
  state of the list (the spacecraft's position is read from the state).
\<close>

fun recordAll ::
  "spacecraft option \<Rightarrow> real \<Rightarrow> sim list \<Rightarrow> line option \<times> vec3 list option
     \<Rightarrow> (line option \<times> vec3 list option) option" where
  "recordAll ship maxPoints [] st = Some st"
| "recordAll ship maxPoints (s # ss) (trajectoryLine, trajectoryPoints) =
     Option.bind (updateTrajectoryLine ship trajectoryLine trajectoryPoints maxPoints s)
       (recordAll ship maxPoints ss)"

section \<open>The five sub-steps of the specification\<close>

text \<open>
  The specification describes a step of the spacecraft as five sub-steps on its
  orientation, velocity and position: turn, thrust, drag, speed clamp, integration.
  They are written here from the specification, to be compared with \<open>updateSpacecraft\<close>.
\<close>

record kinematics =
  orientation :: quaternion
  vel :: vec3
  pos :: vec3

definition spec_turn :: "real \<Rightarrow> inputState \<Rightarrow> real \<Rightarrow> kinematics \<Rightarrow> kinematics" where
  "spec_turn turnRate inp dt k =
     k\<lparr>orientation :=
         multiplyQuaternions (orientation k)
           (setFromAxisAngle (Vector3 0 1 0)
              ((if turnLeft inp then turnRate else 0) * dt
               + (if turnRight inp then - turnRate else 0) * dt))\<rparr>"

definition spec_thrust :: "real \<Rightarrow> inputState \<Rightarrow> real \<Rightarrow> kinematics \<Rightarrow> kinematics" where
  "spec_thrust thrustAccel inp dt k =
     (if thrust inp
      then k\<lparr>vel := addV (vel k)
                 (multiplyScalar
                    (multiplyScalar (applyQuaternion (Vector3 0 0 (- 1)) (orientation k)) thrustAccel)
                    dt)\<rparr>
      else k)"

definition spec_drag :: "real \<Rightarrow> kinematics \<Rightarrow> kinematics" where
  "spec_drag dragFactor k = k\<lparr>vel := multiplyScalar (vel k) dragFactor\<rparr>"

definition spec_clamp :: "real \<Rightarrow> kinematics \<Rightarrow> kinematics" where
  "spec_clamp speedLimit k =
     (if lengthV (vel k) > speedLimit
      then k\<lparr>vel := multiplyScalar (vel k) (speedLimit / lengthV (vel k))\<rparr>
      else k)"

definition spec_integrate :: "real \<Rightarrow> kinematics \<Rightarrow> kinematics" where
  "spec_integrate dt k = k\<lparr>pos := addV (pos k) (multiplyScalar (vel k) dt)\<rparr>"

definition kinematicsOf :: "spacecraft \<Rightarrow> sim \<Rightarrow> kinematics" where
  "kinematicsOf sc s =
     \<lparr>orientation = quaternion (objects s (spacecraft.mesh sc)),
      vel = velocity sc,
      pos = position (objects s (spacecraft.mesh sc))\<rparr>"

section \<open>Bodies reached by the update, and example scenes\<close>

text \<open>The bodies \<open>updateCelestials\<close> visits: each body of the array, followed by its moons.\<close>

definition moonsOf :: "body \<Rightarrow> body list" where
  "moonsOf b = (case moons b of None \<Rightarrow> [] | Some ms \<Rightarrow> ms)"

definition visited :: "body list \<Rightarrow> body list" where
  "visited bodies = concat (map (\<lambda>b. b # moonsOf b) bodies)"

definition objectsOf :: "body \<Rightarrow> addr list" where
  "objectsOf b =
     (case pivot b of None \<Rightarrow> [] | Some p \<Rightarrow> [p])
     @ (case body.mesh b of None \<Rightarrow> [] | Some m \<Rightarrow> [m])"

text \<open>The rotations applied for one visited body, in the order of the code.\<close>

definition turnsOf :: "real \<Rightarrow> body \<Rightarrow> (addr \<times> real) list" where
  "turnsOf delta b =
     (case pivot b of
        None \<Rightarrow> []
      | Some p \<Rightarrow> (case speed b of None \<Rightarrow> [] | Some v \<Rightarrow> [(p, v * delta)]))
     @ (case body.mesh b of
          None \<Rightarrow> []
        | Some m \<Rightarrow> (case axialSpeed b of None \<Rightarrow> [] | Some v \<Rightarrow> [(m, v * delta)]))"

definition applyTurn :: "sim \<Rightarrow> addr \<times> real \<Rightarrow> sim" where
  "applyTurn s t = addRotationY (fst t) (snd t) s"

text \<open>\<open>new THREE.Object3D()\<close>, and a scene in which every address holds such an object.\<close>

definition newObject3D :: object3d where
  "newObject3D =
     \<lparr>position = Vector3 0 0 0, rotation = Euler 0 0 0, quaternion = Quaternion 0 0 0 1,
      scale = Vector3 1 1 1, parent = None, geometry = None\<rparr>"

definition blankScene :: sim where
  "blankScene =
     \<lparr>objects = (\<lambda>a. newObject3D), updateShipForward = Vector3 0 0 0,
      updateTempVec3 = Vector3 0 0 0, updateTargetDirection = Vector3 0 0 0\<rparr>"

text \<open>
  A planet as \<open>createPlanets\<close> builds it, a quarter of a turn into its orbit: the pivot
  (address 5) at the origin, the mesh (address 6) its child at distance 15 on the local
  x axis.
\<close>

definition quarterOrbit :: sim where
  "quarterOrbit =
     addRotationY 5 (pi / 2)
       (blankScene\<lparr>objects :=
          (\<lambda>a. newObject3D)
            (6 := newObject3D\<lparr>position := Vector3 15 0 0, parent := Some 5,
                               geometry := Some (BufferGeometry None)\<rparr>)\<rparr>)"

definition quarterPlanet :: body where
  "quarterPlanet = Body (Some 6) (Some 5) (Some 0.8) (Some 0.1) (Some [])"

text \<open>
  A craft (mesh at address 3) at the origin heading along \<open>-Z\<close>, and a target mesh
  (address 4) of bounding radius 1 straight ahead at distance 100.
\<close>

definition aheadScene :: sim where
  "aheadScene =
     blankScene\<lparr>objects :=
       (\<lambda>a. newObject3D)
         (4 := newObject3D\<lparr>position := Vector3 0 0 (- 100),
                            geometry :=
                              Some (BufferGeometry (Some (Sphere (Vector3 0 0 0) 1)))\<rparr>)\<rparr>"

definition restingCraft :: spacecraft where
  "restingCraft =
     \<lparr>mesh = 3, velocity = Vector3 0 0 0, turnSpeed = 2.5, thrustPower = 7.0,
      drag = 0.98, maxSpeed = 30.0\<rparr>"


text \<open>A body whose moon has a moon of its own: pivots at the addresses 7, 8 and 9.\<close>

definition nestedBody :: body where
  "nestedBody =
     Body None (Some 7) (Some 1) None
       (Some [Body None (Some 8) (Some 1) None
                (Some [Body None (Some 9) (Some 1) None None])])"

section \<open>Lengths of vectors\<close>

lemma lengthV_sqrt: "lengthV v = sqrt (lengthSq v)"
  by (simp add: lengthV_def lengthSq_def)


lemma lengthSq_gt_iff: "0 \<le> m \<Longrightarrow> lengthSq v > m * m \<longleftrightarrow> lengthV v > m"
proof -
  assume m: "0 \<le> m"
  have "sqrt (m * m) = m" using m by simp
  then show ?thesis
    unfolding lengthV_sqrt by (metis real_sqrt_less_iff)
qed

section \<open>The speed limit of the spacecraft\<close>

































































section \<open>The trajectory history\<close>

lemma popWhileLonger_take:
  "0 \<le> m \<Longrightarrow> popWhileLonger pts m = Some (take (nat \<lfloor>m\<rfloor>) pts)"
proof (induction "length pts" arbitrary: pts)
  case 0
  then show ?case by (subst popWhileLonger.simps) simp
next
  case (Suc n)
  show ?case
  proof (cases "real (length pts) > m")
    case True
    have l: "length (butlast pts) = n" using Suc.hyps(2) by simp
    have "real_of_int \<lfloor>m\<rfloor> \<le> m" by (rule of_int_floor_le)
    then have "real_of_int \<lfloor>m\<rfloor> < real (Suc n)" using True Suc.hyps(2) by linarith
    then have "\<lfloor>m\<rfloor> < int (Suc n)" by linarith
    then have le: "nat \<lfloor>m\<rfloor> \<le> n" by simp
    have "length pts - 1 = n" using Suc.hyps(2) by simp
    then have "butlast pts = take n pts" by (simp only: butlast_conv_take)
    then have t: "take (nat \<lfloor>m\<rfloor>) (butlast pts) = take (nat \<lfloor>m\<rfloor>) pts"
      using le by (simp add: min_absorb1)
    show ?thesis
      using True Suc.hyps(1)[OF l[symmetric] Suc.prems] t
      by (subst popWhileLonger.simps) simp
  next
    case False
    then have "length pts \<le> nat \<lfloor>m\<rfloor>"
      by (simp add: le_nat_floor)
    with False show ?thesis by (subst popWhileLonger.simps) simp
  qed
qed

lemma min_floor_le: "0 \<le> m \<Longrightarrow> real (min k (nat \<lfloor>m\<rfloor>)) \<le> m"
proof -
  assume m: "0 \<le> m"
  have "real (min k (nat \<lfloor>m\<rfloor>)) \<le> real (nat \<lfloor>m\<rfloor>)" by simp
  also have "\<dots> = real_of_int \<lfloor>m\<rfloor>" using m by simp
  also have "\<dots> \<le> m" by (rule of_int_floor_le)
  finally show ?thesis .
qed

lemma updateTrajectoryLine_bound:
  assumes "real (length pts) \<le> maxPoints"
  shows "\<exists>l' pts'. updateTrajectoryLine ship trajectoryLine (Some pts) maxPoints s
                     = Some (l', Some pts')
           \<and> real (length pts') \<le> maxPoints"
proof -
  have m: "0 \<le> maxPoints" using assms of_nat_0_le_iff [of "length pts"] by linarith
  show ?thesis
    using assms m
    by (auto simp: updateTrajectoryLine_def popWhileLonger_take min_floor_le Let_def
        split: option.splits)
qed

lemma recordAll_bound:
  assumes "real (length pts) \<le> maxPoints"
  shows "\<exists>l' pts'. recordAll ship maxPoints ss (trajectoryLine, Some pts) = Some (l', Some pts')
           \<and> real (length pts') \<le> maxPoints"
  using assms
proof (induction ss arbitrary: trajectoryLine pts)
  case Nil
  then show ?case by simp
next
  case (Cons s ss)
  obtain l1 pts1
    where u: "updateTrajectoryLine ship trajectoryLine (Some pts) maxPoints s = Some (l1, Some pts1)"
    and b: "real (length pts1) \<le> maxPoints"
    using updateTrajectoryLine_bound [OF Cons.prems] by blast
  from Cons.IH [OF b, of l1] u show ?case by simp
qed

lemma first_record:
  "updateTrajectoryLine (Some sc) (Some l0) (Some []) 3 s
     = Some (Some (Line [position (objects s (spacecraft.mesh sc))]),
             Some [position (objects s (spacecraft.mesh sc))])"
  by (simp add: updateTrajectoryLine_def popWhileLonger_take Let_def)

lemma repeated_record:
  "updateTrajectoryLine (Some sc) (Some l1) (Some [position (objects s (spacecraft.mesh sc))]) 3 s
     = Some (Some l1, Some [position (objects s (spacecraft.mesh sc))])"
  by (simp add: updateTrajectoryLine_def equalsV_def Let_def)

lemma five_records:
  "recordAll (Some sc) 3 (replicate 5 s) (Some l0, Some [])
     = Some (Some (Line [position (objects s (spacecraft.mesh sc))]),
             Some [position (objects s (spacecraft.mesh sc))])"
  by (simp add: numeral_eq_Suc first_record repeated_record)

text \<open>
  C5. From a history of length at most \<open>maxPoints\<close>, every sequence of calls of
  \<open>updateTrajectoryLine\<close> with that \<open>maxPoints\<close> returns, and the history is then still of
  length at most \<open>maxPoints\<close>. Recording one position five times with \<open>maxPoints = 3\<close>,
  from an empty history, leaves a history of length 1.
\<close>

theorem history_within_maxPoints:
  "(real (length pts) \<le> maxPoints \<longrightarrow>
      (\<exists>l' pts'. recordAll ship maxPoints ss (trajectoryLine, Some pts) = Some (l', Some pts')
         \<and> real (length pts') \<le> maxPoints))
   \<and> (\<exists>l' pts'. recordAll (Some sc) 3 (replicate 5 s) (Some l0, Some []) = Some (l', Some pts')
         \<and> length pts' = 1)"
  using recordAll_bound [of pts maxPoints ship ss trajectoryLine]
  by (simp add: five_records)

theorem history_within_maxPoints_witness:
  "real (length [Vector3 1 0 0, Vector3 2 0 0]) \<le> 2
   \<and> (\<exists>l' pts'. recordAll (Some restingCraft) 2 [aheadScene, quarterOrbit, aheadScene]
                    (Some (Line []), Some [Vector3 1 0 0, Vector3 2 0 0]) = Some (l', Some pts')
         \<and> real (length pts') \<le> 2)"
  using history_within_maxPoints
    [of "[Vector3 1 0 0, Vector3 2 0 0]" 2 "Some restingCraft"
        "[aheadScene, quarterOrbit, aheadScene]" "Some (Line [])"]
  by simp

text \<open>
  C10. When the history is not empty and its newest entry equals the current position of
  the spacecraft, \<open>updateTrajectoryLine\<close> changes neither the history nor the line,
  whatever \<open>maxPoints\<close> is: a history longer than \<open>maxPoints\<close> is not trimmed by that call.
\<close>

theorem stationary_record_unchanged:
  assumes "pts \<noteq> []" and "hd pts = position (objects s (spacecraft.mesh sc))"
  shows "updateTrajectoryLine (Some sc) trajectoryLine (Some pts) maxPoints s
           = Some (trajectoryLine, Some pts)"
  using assms by (simp add: updateTrajectoryLine_def equalsV_def split: option.splits)

theorem stationary_record_unchanged_witness:
  "[Vector3 0 0 0, Vector3 1 0 0, Vector3 2 0 0] \<noteq> []
   \<and> hd [Vector3 0 0 0, Vector3 1 0 0, Vector3 2 0 0]
       = position (objects aheadScene (spacecraft.mesh restingCraft))
   \<and> real (length [Vector3 0 0 0, Vector3 1 0 0, Vector3 2 0 0]) > 1
   \<and> updateTrajectoryLine (Some restingCraft) (Some (Line []))
        (Some [Vector3 0 0 0, Vector3 1 0 0, Vector3 2 0 0]) 1 aheadScene
       = Some (Some (Line []), Some [Vector3 0 0 0, Vector3 1 0 0, Vector3 2 0 0])"
  using stationary_record_unchanged
    [of "[Vector3 0 0 0, Vector3 1 0 0, Vector3 2 0 0]" aheadScene restingCraft
        "Some (Line [])" 1]
  by (simp add: aheadScene_def blankScene_def restingCraft_def newObject3D_def)

section \<open>The autopilot when disengaged\<close>

text \<open>
  C7. When \<open>isAiActive\<close> is false or the target is absent, \<open>updateAiPilot\<close> returns with
  \<open>thrust\<close>, \<open>turnLeft\<close> and \<open>turnRight\<close> all false, whatever they were before, and
  with the state (scene and scratch vectors) untouched: no steering is computed.
\<close>

theorem disengaged_autopilot_clears_input:
  assumes "\<not> isAiActive \<or> targetObject = None"
  shows "updateAiPilot BASE_PLANET_RADIUS ship targetObject inp delta isAiActive s
           = Some (\<lparr>thrust = False, turnLeft = False, turnRight = False\<rparr>, s)"
  using assms by (auto simp: updateAiPilot_def)

theorem disengaged_autopilot_clears_input_witness:
  "updateAiPilot 1 (Some restingCraft) None
        \<lparr>thrust = True, turnLeft = True, turnRight = True\<rparr> 1 True aheadScene
       = Some (\<lparr>thrust = False, turnLeft = False, turnRight = False\<rparr>, aheadScene)"
  using disengaged_autopilot_clears_input
    [of True None 1 "Some restingCraft" "\<lparr>thrust = True, turnLeft = True, turnRight = True\<rparr>"
        1 aheadScene]
  by simp

section \<open>Celestial bodies while paused\<close>

text \<open>
  C9. With \<open>isPaused\<close> true, \<open>updateCelestials\<close> returns the state it was given, for every
  array of bodies and every \<open>delta\<close>: no angle of any object changes.
\<close>

theorem paused_update_is_noop:
  "updateCelestials celestialBodies delta True s = s"
  by (simp add: updateCelestials_def)

section \<open>The order of the sub-steps of a spacecraft step\<close>

lemma multiplyScalar_twice: "multiplyScalar (multiplyScalar v a) b = multiplyScalar v (a * b)"
  by (simp add: multiplyScalar_def mult.assoc)

lemma rescale_eq:
  assumes "lengthV v \<noteq> 0"
  shows "multiplyScalar (normalizeV v) m = multiplyScalar v (m / lengthV v)"
  using assms by (simp add: normalizeV_def divideScalar_def multiplyScalar_twice)

lemma clamp_refines:
  assumes "0 \<le> m"
  shows "(if lengthSq v > m * m then multiplyScalar (normalizeV v) m else v)
         = (if lengthV v > m then multiplyScalar v (m / lengthV v) else v)"
proof (cases "lengthV v > m")
  case True
  then have "lengthV v \<noteq> 0" using assms by simp
  with True assms show ?thesis by (simp add: lengthSq_gt_iff rescale_eq)
next
  case False
  with assms show ?thesis by (simp add: lengthSq_gt_iff)
qed

lemma updateSpacecraft_explicit:
  fixes sc inp dt s
  defines "turn \<equiv> (if turnLeft inp then turnSpeed sc else 0) * dt
                    + (if turnRight inp then - turnSpeed sc else 0) * dt"
  defines "q \<equiv> multiplyQuaternions (quaternion (objects s (spacecraft.mesh sc)))
                  (setFromAxisAngle (Vector3 0 1 0) turn)"
  defines "v1 \<equiv> (if thrust inp
                  then addV (velocity sc)
                         (multiplyScalar (applyQuaternion (Vector3 0 0 (- 1)) q)
                            (thrustPower sc * dt))
                  else velocity sc)"
  defines "v2 \<equiv> multiplyScalar v1 (drag sc)"
  defines "v3 \<equiv> (if lengthSq v2 > maxSpeed sc * maxSpeed sc
                  then multiplyScalar (normalizeV v2) (maxSpeed sc) else v2)"
  shows "\<exists>s'. updateSpacecraft (Some sc) inp dt s = (Some (sc\<lparr>velocity := v3\<rparr>), s')
           \<and> quaternion (objects s' (spacecraft.mesh sc)) = q
           \<and> position (objects s' (spacecraft.mesh sc))
               = addV (position (objects s (spacecraft.mesh sc))) (multiplyScalar v3 dt)"
  unfolding turn_def q_def v1_def v2_def v3_def
  by (cases "thrust inp"; cases "turnLeft inp"; cases "turnRight inp")
     (simp_all add: updateSpacecraft_def Let_def rotateY_def setPosition_def)

lemma spec_pipeline:
  fixes sc inp dt s
  defines "turn \<equiv> (if turnLeft inp then turnSpeed sc else 0) * dt
                    + (if turnRight inp then - turnSpeed sc else 0) * dt"
  defines "q \<equiv> multiplyQuaternions (quaternion (objects s (spacecraft.mesh sc)))
                  (setFromAxisAngle (Vector3 0 1 0) turn)"
  defines "v1 \<equiv> (if thrust inp
                  then addV (velocity sc)
                         (multiplyScalar (applyQuaternion (Vector3 0 0 (- 1)) q)
                            (thrustPower sc * dt))
                  else velocity sc)"
  defines "v2 \<equiv> multiplyScalar v1 (drag sc)"
  defines "v3 \<equiv> (if lengthSq v2 > maxSpeed sc * maxSpeed sc
                  then multiplyScalar (normalizeV v2) (maxSpeed sc) else v2)"
  assumes m: "0 \<le> maxSpeed sc"
  shows "spec_integrate dt
           (spec_clamp (maxSpeed sc)
              (spec_drag (drag sc)
                 (spec_thrust (thrustPower sc) inp dt
                    (spec_turn (turnSpeed sc) inp dt (kinematicsOf sc s)))))
         = \<lparr>orientation = q, vel = v3,
            pos = addV (position (objects s (spacecraft.mesh sc))) (multiplyScalar v3 dt)\<rparr>"
proof -
  have t: "spec_turn (turnSpeed sc) inp dt (kinematicsOf sc s)
             = \<lparr>orientation = q, vel = velocity sc, pos = position (objects s (spacecraft.mesh sc))\<rparr>"
    by (simp add: spec_turn_def kinematicsOf_def q_def turn_def)
  have th: "spec_thrust (thrustPower sc) inp dt
              \<lparr>orientation = q, vel = velocity sc, pos = position (objects s (spacecraft.mesh sc))\<rparr>
             = \<lparr>orientation = q, vel = v1, pos = position (objects s (spacecraft.mesh sc))\<rparr>"
    by (simp add: spec_thrust_def v1_def multiplyScalar_twice)
  have d: "spec_drag (drag sc)
              \<lparr>orientation = q, vel = v1, pos = position (objects s (spacecraft.mesh sc))\<rparr>
             = \<lparr>orientation = q, vel = v2, pos = position (objects s (spacecraft.mesh sc))\<rparr>"
    by (simp add: spec_drag_def v2_def)
  have c: "spec_clamp (maxSpeed sc)
              \<lparr>orientation = q, vel = v2, pos = position (objects s (spacecraft.mesh sc))\<rparr>
             = \<lparr>orientation = q, vel = v3, pos = position (objects s (spacecraft.mesh sc))\<rparr>"
    unfolding v3_def clamp_refines [OF m] by (simp add: spec_clamp_def)
  show ?thesis
    unfolding t th d c by (simp add: spec_integrate_def)
qed

lemma lengthV_along_z: "lengthV (Vector3 0 0 z) = \<bar>z\<bar>"
  by (simp add: lengthV_def)

lemma unit_turn: "multiplyQuaternions q (setFromAxisAngle (Vector3 0 1 0) 0) = q"
  by (cases q) (simp add: multiplyQuaternions_def setFromAxisAngle_def)

lemma aheadScene_craft: "objects aheadScene 3 = newObject3D"
  by (simp add: aheadScene_def blankScene_def)

lemma craft_position: "position (objects aheadScene (spacecraft.mesh restingCraft)) = Vector3 0 0 0"
  by (simp add: aheadScene_craft restingCraft_def newObject3D_def)

lemma craft_forward:
  "applyQuaternion (Vector3 0 0 (- 1))
     (quaternion (objects aheadScene (spacecraft.mesh restingCraft))) = Vector3 0 0 (- 1)"
  by (simp add: aheadScene_craft restingCraft_def newObject3D_def applyQuaternion_def)

text \<open>
  C6. \<open>updateSpacecraft\<close> is the composition of the five sub-steps in the order turn,
  thrust, drag, clamp, integrate: its effect on orientation, velocity and position is
  that of \<open>spec_integrate\<close> after \<open>spec_clamp\<close> after \<open>spec_drag\<close> after \<open>spec_thrust\<close>
  after \<open>spec_turn\<close>. For a spacecraft at rest heading along \<open>-Z\<close> with
  \<open>thrustPower = 7.0\<close>, \<open>drag = 0.98\<close> and \<open>maxSpeed = 30\<close>, one step with only
  \<open>thrust\<close> set and \<open>delta = 1.0\<close> gives the velocity \<open>(0, 0, -6.86)\<close>, of magnitude
  \<open>7.0 * 0.98 = 6.86\<close>, and moves the position by that velocity times \<open>delta\<close>.
\<close>

theorem step_order_and_thrust_tick:
  "(0 < maxSpeed sc \<longrightarrow>
      (\<exists>sc' s'. updateSpacecraft (Some sc) inp dt s = (Some sc', s')
         \<and> kinematicsOf sc' s' =
             spec_integrate dt
               (spec_clamp (maxSpeed sc)
                  (spec_drag (drag sc)
                     (spec_thrust (thrustPower sc) inp dt
                        (spec_turn (turnSpeed sc) inp dt (kinematicsOf sc s)))))))
   \<and> (velocity sc = Vector3 0 0 0
        \<and> applyQuaternion (Vector3 0 0 (- 1)) (quaternion (objects s (spacecraft.mesh sc)))
            = Vector3 0 0 (- 1)
        \<and> thrustPower sc = 7.0 \<and> drag sc = 0.98 \<and> maxSpeed sc = 30 \<longrightarrow>
      (\<exists>sc' s'. updateSpacecraft (Some sc)
                   \<lparr>thrust = True, turnLeft = False, turnRight = False\<rparr> 1.0 s = (Some sc', s')
         \<and> velocity sc' = Vector3 0 0 (- 6.86)
         \<and> lengthV (velocity sc') = 7.0 * 0.98
         \<and> lengthV (velocity sc') = 6.86
         \<and> position (objects s' (spacecraft.mesh sc))
             = addV (position (objects s (spacecraft.mesh sc)))
                 (multiplyScalar (velocity sc') 1.0)
         \<and> position (objects s' (spacecraft.mesh sc))
             = addV (position (objects s (spacecraft.mesh sc))) (Vector3 0 0 (- 6.86))))"
proof (intro conjI impI)
  assume "0 < maxSpeed sc"
  then have m: "0 \<le> maxSpeed sc" by simp
  show "\<exists>sc' s'. updateSpacecraft (Some sc) inp dt s = (Some sc', s')
          \<and> kinematicsOf sc' s' =
              spec_integrate dt
                (spec_clamp (maxSpeed sc)
                   (spec_drag (drag sc)
                      (spec_thrust (thrustPower sc) inp dt
                         (spec_turn (turnSpeed sc) inp dt (kinematicsOf sc s)))))"
    using updateSpacecraft_explicit [of sc inp dt s]
    unfolding spec_pipeline [OF m]
    by (auto simp: kinematicsOf_def)
next
  assume a: "velocity sc = Vector3 0 0 0
        \<and> applyQuaternion (Vector3 0 0 (- 1)) (quaternion (objects s (spacecraft.mesh sc)))
            = Vector3 0 0 (- 1)
        \<and> thrustPower sc = 7.0 \<and> drag sc = 0.98 \<and> maxSpeed sc = 30"
  show "\<exists>sc' s'. updateSpacecraft (Some sc)
                   \<lparr>thrust = True, turnLeft = False, turnRight = False\<rparr> 1.0 s = (Some sc', s')
         \<and> velocity sc' = Vector3 0 0 (- 6.86)
         \<and> lengthV (velocity sc') = 7.0 * 0.98
         \<and> lengthV (velocity sc') = 6.86
         \<and> position (objects s' (spacecraft.mesh sc))
             = addV (position (objects s (spacecraft.mesh sc)))
                 (multiplyScalar (velocity sc') 1.0)
         \<and> position (objects s' (spacecraft.mesh sc))
             = addV (position (objects s (spacecraft.mesh sc))) (Vector3 0 0 (- 6.86))"
    using updateSpacecraft_explicit
      [of sc "\<lparr>thrust = True, turnLeft = False, turnRight = False\<rparr>" 1 s] a
    by (auto simp: unit_turn addV_def multiplyScalar_def lengthSq_def lengthV_along_z)
qed

theorem step_order_and_thrust_tick_witness:
  "0 < maxSpeed restingCraft
   \<and> velocity restingCraft = Vector3 0 0 0
   \<and> applyQuaternion (Vector3 0 0 (- 1))
        (quaternion (objects aheadScene (spacecraft.mesh restingCraft))) = Vector3 0 0 (- 1)
   \<and> thrustPower restingCraft = 7.0 \<and> drag restingCraft = 0.98 \<and> maxSpeed restingCraft = 30
   \<and> (\<exists>sc' s'. updateSpacecraft (Some restingCraft)
                   \<lparr>thrust = True, turnLeft = False, turnRight = False\<rparr> 1.0 aheadScene
                 = (Some sc', s')
         \<and> kinematicsOf sc' s' =
             spec_integrate 1.0
               (spec_clamp 30
                  (spec_drag 0.98
                     (spec_thrust 7.0 \<lparr>thrust = True, turnLeft = False, turnRight = False\<rparr> 1.0
                        (spec_turn 2.5 \<lparr>thrust = True, turnLeft = False, turnRight = False\<rparr> 1.0
                           (kinematicsOf restingCraft aheadScene)))))
         \<and> velocity sc' = Vector3 0 0 (- 6.86)
         \<and> lengthV (velocity sc') = 6.86
         \<and> position (objects s' 3) = Vector3 0 0 (- 6.86))"
proof -
  have r: "maxSpeed restingCraft = 30" "thrustPower restingCraft = 7.0" "drag restingCraft = 0.98"
    "turnSpeed restingCraft = 2.5" "velocity restingCraft = Vector3 0 0 0"
    "spacecraft.mesh restingCraft = 3"
    by (simp_all add: restingCraft_def)
  from step_order_and_thrust_tick
    [of restingCraft "\<lparr>thrust = True, turnLeft = False, turnRight = False\<rparr>" 1 aheadScene]
  show ?thesis
    using craft_forward craft_position
    by (auto simp: r addV_def)
qed

section \<open>Which bodies the celestial update reaches\<close>

lemma updateMoon_turns: "updateMoon delta s m = foldl applyTurn s (turnsOf delta m)"
  by (simp add: updateMoon_def turnsOf_def applyTurn_def Let_def split: option.splits)

lemma foldl_updateMoon:
  "foldl (updateMoon delta) s ms = foldl applyTurn s (concat (map (turnsOf delta) ms))"
  by (induction ms arbitrary: s) (simp_all add: updateMoon_turns)

lemma updateBody_turns:
  "updateBody delta s b = foldl applyTurn s (concat (map (turnsOf delta) (b # moonsOf b)))"
proof -
  have "updateBody delta s b
        = foldl (updateMoon delta) (foldl applyTurn s (turnsOf delta b)) (moonsOf b)"
    by (simp add: updateBody_def turnsOf_def applyTurn_def moonsOf_def Let_def split: option.splits)
  then show ?thesis by (simp add: foldl_updateMoon)
qed

lemma foldl_updateBody:
  "foldl (updateBody delta) s bodies
     = foldl applyTurn s (concat (map (turnsOf delta) (visited bodies)))"
  by (induction bodies arbitrary: s) (simp_all add: visited_def updateBody_turns)

lemma applyTurn_other: "a \<noteq> fst t \<Longrightarrow> objects (applyTurn s t) a = objects s a"
  by (simp add: applyTurn_def addRotationY_def Let_def)

lemma applyTurn_same:
  "ey (rotation (objects (applyTurn s t) (fst t))) = ey (rotation (objects s (fst t))) + snd t"
  by (simp add: applyTurn_def addRotationY_def Let_def)

lemma foldl_applyTurn_other:
  "a \<notin> fst ` set ts \<Longrightarrow> objects (foldl applyTurn s ts) a = objects s a"
  by (induction ts arbitrary: s) (simp_all add: applyTurn_other)

lemma foldl_applyTurn_same:
  assumes "distinct (map fst ts)" and "(a, d) \<in> set ts"
  shows "ey (rotation (objects (foldl applyTurn s ts) a)) = ey (rotation (objects s a)) + d"
  using assms
proof (induction ts arbitrary: s)
  case Nil
  then show ?case by simp
next
  case (Cons t ts)
  show ?case
  proof (cases "t = (a, d)")
    case True
    then have "a \<notin> fst ` set ts" using Cons.prems(1) by auto
    then have "objects (foldl applyTurn (applyTurn s t) ts) a = objects (applyTurn s t) a"
      by (rule foldl_applyTurn_other)
    then show ?thesis using True applyTurn_same [of s t] by simp
  next
    case False
    then have in_ts: "(a, d) \<in> set ts" using Cons.prems(2) by simp
    then have "a \<in> fst ` set ts" by force
    moreover have "fst t \<notin> fst ` set ts" using Cons.prems(1) by simp
    ultimately have "a \<noteq> fst t" by blast
    then have "objects (applyTurn s t) a = objects s a" by (rule applyTurn_other)
    moreover have "distinct (map fst ts)" using Cons.prems(1) by simp
    ultimately show ?thesis using Cons.IH [OF _ in_ts, of "applyTurn s t"] by simp
  qed
qed

lemma turnsOf_subset: "fst ` set (turnsOf delta b) \<subseteq> set (objectsOf b)"
  by (auto simp: turnsOf_def objectsOf_def split: option.splits)

lemma turnsOf_distinct: "distinct (objectsOf b) \<Longrightarrow> distinct (map fst (turnsOf delta b))"
  by (auto simp: turnsOf_def objectsOf_def split: option.splits)

lemma turns_subset:
  "fst ` set (concat (map (turnsOf delta) bs)) \<subseteq> set (concat (map objectsOf bs))"
  using turnsOf_subset by fastforce

lemma turns_distinct:
  "distinct (concat (map objectsOf bs)) \<Longrightarrow> distinct (map fst (concat (map (turnsOf delta) bs)))"
proof (induction bs)
  case Nil
  then show ?case by simp
next
  case (Cons b bs)
  have d1: "distinct (map fst (turnsOf delta b))"
    using Cons.prems by (simp add: turnsOf_distinct)
  have d2: "distinct (map fst (concat (map (turnsOf delta) bs)))"
    using Cons.prems Cons.IH by simp
  have "set (objectsOf b) \<inter> set (concat (map objectsOf bs)) = {}"
    using Cons.prems by simp
  then have "fst ` set (turnsOf delta b) \<inter> fst ` set (concat (map (turnsOf delta) bs)) = {}"
    using turnsOf_subset [of delta b] turns_subset [of delta bs] by blast
  then have "set (map fst (turnsOf delta b)) \<inter> set (map fst (concat (map (turnsOf delta) bs))) = {}"
    by simp
  with d1 d2 have "distinct (map fst (turnsOf delta b) @ map fst (concat (map (turnsOf delta) bs)))"
    by (simp only: distinct_append)
  then show ?case by simp
qed

lemma updateCelestials_running:
  "updateCelestials bodies delta False s
     = foldl applyTurn s (concat (map (turnsOf delta) (visited bodies)))"
  by (simp add: updateCelestials_def foldl_updateBody)

lemma updateCelestials_frame:
  assumes "a \<notin> set (concat (map objectsOf (visited bodies)))"
  shows "objects (updateCelestials bodies delta isPaused s) a = objects s a"
proof (cases isPaused)
  case True
  then show ?thesis by (simp add: updateCelestials_def)
next
  case False
  have "a \<notin> fst ` set (concat (map (turnsOf delta) (visited bodies)))"
    using assms turns_subset [of delta "visited bodies"] by blast
  then show ?thesis using False
    by (simp add: updateCelestials_running foldl_applyTurn_other)
qed

text \<open>
  C8, as stated, fails: \<open>updateCelestials\<close> does not descend below the moons of the
  bodies of the array. In \<open>nestedBody\<close> the moon's own moon has its pivot at address 9
  and speed 1; after an unpaused update with \<open>delta = 1\<close> its orbital angle has not
  grown by \<open>1 * 1\<close>.
\<close>

theorem moon_of_moon_not_advanced:
  "ey (rotation (objects (updateCelestials [nestedBody] 1 False blankScene) 9))
     \<noteq> ey (rotation (objects blankScene 9)) + 1 * 1"
proof -
  have "9 \<notin> set (concat (map objectsOf (visited [nestedBody])))"
    by (simp add: visited_def nestedBody_def moonsOf_def objectsOf_def)
  then have "objects (updateCelestials [nestedBody] 1 False blankScene) 9 = objects blankScene 9"
    by (rule updateCelestials_frame)
  then show ?thesis by simp
qed

text \<open>
  C8, amended. When not paused, \<open>updateCelestials\<close> adds \<open>speed * delta\<close> to the orbital
  angle (the pivot's \<open>rotation.y\<close>) and \<open>axialSpeed * delta\<close> to the axial angle (the
  mesh's \<open>rotation.y\<close>) of every body of the array and of every moon listed directly in
  such a body's \<open>moons\<close>, provided the pivots and meshes of these bodies are pairwise
  distinct objects. It does not descend further: every object that is not a pivot or
  mesh of one of these bodies is left as it was.
\<close>

theorem bodies_and_direct_moons_advance:
  assumes "distinct (concat (map objectsOf (visited bodies)))"
  shows "(\<forall>b \<in> set (visited bodies).
            (\<forall>p v. pivot b = Some p \<and> speed b = Some v \<longrightarrow>
               ey (rotation (objects (updateCelestials bodies delta False s) p))
                 = ey (rotation (objects s p)) + v * delta)
          \<and> (\<forall>m v. body.mesh b = Some m \<and> axialSpeed b = Some v \<longrightarrow>
               ey (rotation (objects (updateCelestials bodies delta False s) m))
                 = ey (rotation (objects s m)) + v * delta))
       \<and> (\<forall>a. a \<notin> set (concat (map objectsOf (visited bodies))) \<longrightarrow>
             objects (updateCelestials bodies delta False s) a = objects s a)"
proof (intro conjI ballI allI impI)
  fix b p v
  assume b: "b \<in> set (visited bodies)" and pv: "pivot b = Some p \<and> speed b = Some v"
  have d: "distinct (map fst (concat (map (turnsOf delta) (visited bodies))))"
    using assms by (rule turns_distinct)
  have "(p, v * delta) \<in> set (concat (map (turnsOf delta) (visited bodies)))"
    using b pv by (auto simp: turnsOf_def intro!: bexI [of _ b])
  from foldl_applyTurn_same [OF d this]
  show "ey (rotation (objects (updateCelestials bodies delta False s) p))
          = ey (rotation (objects s p)) + v * delta"
    by (simp add: updateCelestials_running)
next
  fix b m v
  assume b: "b \<in> set (visited bodies)" and mv: "body.mesh b = Some m \<and> axialSpeed b = Some v"
  have d: "distinct (map fst (concat (map (turnsOf delta) (visited bodies))))"
    using assms by (rule turns_distinct)
  have "(m, v * delta) \<in> set (concat (map (turnsOf delta) (visited bodies)))"
    using b mv by (auto simp: turnsOf_def intro!: bexI [of _ b])
  from foldl_applyTurn_same [OF d this]
  show "ey (rotation (objects (updateCelestials bodies delta False s) m))
          = ey (rotation (objects s m)) + v * delta"
    by (simp add: updateCelestials_running)
next
  fix a
  assume "a \<notin> set (concat (map objectsOf (visited bodies)))"
  then show "objects (updateCelestials bodies delta False s) a = objects s a"
    by (rule updateCelestials_frame)
qed

theorem bodies_and_direct_moons_advance_witness:
  "distinct (concat (map objectsOf (visited [nestedBody, Body (Some 6) (Some 5) (Some 3) (Some 4) None])))
   \<and> ey (rotation (objects (updateCelestials
           [nestedBody, Body (Some 6) (Some 5) (Some 3) (Some 4) None] 2 False quarterOrbit) 7)) = 2
   \<and> ey (rotation (objects (updateCelestials
           [nestedBody, Body (Some 6) (Some 5) (Some 3) (Some 4) None] 2 False quarterOrbit) 8)) = 2
   \<and> ey (rotation (objects (updateCelestials
           [nestedBody, Body (Some 6) (Some 5) (Some 3) (Some 4) None] 2 False quarterOrbit) 5))
       = pi / 2 + 6
   \<and> ey (rotation (objects (updateCelestials
           [nestedBody, Body (Some 6) (Some 5) (Some 3) (Some 4) None] 2 False quarterOrbit) 6)) = 8
   \<and> objects (updateCelestials
        [nestedBody, Body (Some 6) (Some 5) (Some 3) (Some 4) None] 2 False quarterOrbit) 9
       = objects quarterOrbit 9"
proof -
  have v: "visited [nestedBody, Body (Some 6) (Some 5) (Some 3) (Some 4) None]
             = [nestedBody,
                Body None (Some 8) (Some 1) None (Some [Body None (Some 9) (Some 1) None None]),
                Body (Some 6) (Some 5) (Some 3) (Some 4) None]"
    by (simp add: visited_def nestedBody_def moonsOf_def)
  have o: "concat (map objectsOf (visited [nestedBody, Body (Some 6) (Some 5) (Some 3) (Some 4) None]))
             = [7, 8, 5, 6]"
    unfolding v by (simp add: objectsOf_def nestedBody_def)
  have q: "ey (rotation (objects quarterOrbit 7)) = 0" "ey (rotation (objects quarterOrbit 8)) = 0"
    "ey (rotation (objects quarterOrbit 5)) = pi / 2" "ey (rotation (objects quarterOrbit 6)) = 0"
    by (simp_all add: quarterOrbit_def addRotationY_def blankScene_def newObject3D_def Let_def)
  from bodies_and_direct_moons_advance
    [of "[nestedBody, Body (Some 6) (Some 5) (Some 3) (Some 4) None]" 2 quarterOrbit]
  show ?thesis
    unfolding o unfolding v
    by (simp add: q nestedBody_def)
qed

section \<open>The predicted position at time zero\<close>

lemma quarterOrbit_pivot:
  "objects quarterOrbit 5 =
     newObject3D\<lparr>rotation := Euler 0 (pi / 2) 0,
                  quaternion := Quaternion 0 (sqrt 2 / 2) 0 (sqrt 2 / 2)\<rparr>"
  by (simp add: quarterOrbit_def addRotationY_def blankScene_def newObject3D_def Let_def
      setFromEuler_def sin_45 cos_45)

lemma quarterOrbit_mesh:
  "objects quarterOrbit 6 =
     newObject3D\<lparr>position := Vector3 15 0 0, parent := Some 5,
                  geometry := Some (BufferGeometry None)\<rparr>"
  by (simp add: quarterOrbit_def addRotationY_def blankScene_def newObject3D_def Let_def)

lemma pivot_matrix:
  "matrixWorld (objects quarterOrbit) 5 =
     Some (Matrix4 (Vector3 0 0 (- 1)) (Vector3 0 1 0) (Vector3 1 0 0) (Vector3 0 0 0))"
  by (subst matrixWorld.simps)
     (simp add: quarterOrbit_pivot newObject3D_def updateMatrix_def compose_def Let_def)

lemma half_angle_cos: "1 - sin (t / 2) * (2 * sin (t / 2)) = cos (t::real)"
proof -
  have "cos t = cos (2 * (t / 2))" by simp
  also have "\<dots> = 1 - 2 * (sin (t / 2))\<^sup>2" by (rule cos_double_sin)
  finally show ?thesis by (simp add: power2_eq_square algebra_simps)
qed

lemma half_angle_sin: "cos (t / 2) * (2 * sin (t / 2)) = sin (t::real)"
proof -
  have "sin t = sin (2 * (t / 2))" by simp
  also have "\<dots> = 2 * sin (t / 2) * cos (t / 2)" by (rule sin_double)
  finally show ?thesis by (simp add: algebra_simps)
qed

text \<open>
  For every pivot without parent that is turned about Y only, and every mesh under it at
  distance \<open>d\<close> on its local x axis: the prediction for \<open>timeAhead = 0\<close> and the world
  position of the mesh differ in the sign of the \<open>sin\<close> term.
\<close>

lemma prediction_mirrors_world_position:
  assumes pv: "objects s p = newObject3D\<lparr>position := c, rotation := Euler 0 t 0,
                                 quaternion := setFromEuler (Euler 0 t 0)\<rparr>"
    and ms: "position (objects s m) = Vector3 d 0 0" "quaternion (objects s m) = Quaternion 0 0 0 1"
            "scale (objects s m) = Vector3 1 1 1" "parent (objects s m) = Some p"
  shows "calculateFuturePosition (Some (Body (Some m) (Some p) (Some v) ax mo)) 0 s
           = Some (Vector3 (vx c + cos t * d) (vy c) (vz c + sin t * d))"
    and "getWorldPosition (objects s) m
           = Some (Vector3 (vx c + cos t * d) (vy c) (vz c - sin t * d))"
proof -
  have mp: "matrixWorld (objects s) p
              = Some (Matrix4 (Vector3 (cos t) 0 (- sin t)) (Vector3 0 1 0)
                        (Vector3 (sin t) 0 (cos t)) c)"
    by (subst matrixWorld.simps)
       (simp add: pv newObject3D_def updateMatrix_def compose_def setFromEuler_def Let_def
          half_angle_cos half_angle_sin)
  show "calculateFuturePosition (Some (Body (Some m) (Some p) (Some v) ax mo)) 0 s
           = Some (Vector3 (vx c + cos t * d) (vy c) (vz c + sin t * d))"
    by (simp add: calculateFuturePosition_def getWorldPosition_def mp pv ms newObject3D_def Let_def)
  show "getWorldPosition (objects s) m
           = Some (Vector3 (vx c + cos t * d) (vy c) (vz c - sin t * d))"
    unfolding getWorldPosition_def
    by (subst matrixWorld.simps)
       (simp add: ms mp updateMatrix_def compose_def Let_def multiplyMatrices_def
          applyLinear_def addV_def)
qed

text \<open>
  C1 does not hold of the code. For the planet of \<open>quarterOrbit\<close>, a quarter turn into
  its orbit at distance 15, \<open>calculateFuturePosition\<close> with \<open>timeAhead = 0\<close> returns
  \<open>(0, 0, 15)\<close>, while the world position of its mesh, composed through the pivot's
  rotation about Y, is \<open>(0, 0, -15)\<close>: a rotation about Y by \<open>\<theta>\<close> takes \<open>(d, 0, 0)\<close> to
  \<open>(d cos \<theta>, 0, - d sin \<theta>)\<close>, and the code adds \<open>+ d sin \<theta>\<close>.
\<close>

theorem predicted_position_now_is_mirrored:
  "calculateFuturePosition (Some quarterPlanet) 0 quarterOrbit = Some (Vector3 0 0 15)
   \<and> getWorldPosition (objects quarterOrbit) 6 = Some (Vector3 0 0 (- 15))"
proof
  show "calculateFuturePosition (Some quarterPlanet) 0 quarterOrbit = Some (Vector3 0 0 15)"
    by (simp add: calculateFuturePosition_def getWorldPosition_def pivot_matrix quarterPlanet_def
        quarterOrbit_pivot quarterOrbit_mesh newObject3D_def Let_def)
  show "getWorldPosition (objects quarterOrbit) 6 = Some (Vector3 0 0 (- 15))"
    unfolding getWorldPosition_def
    by (subst matrixWorld.simps)
       (simp add: quarterOrbit_mesh pivot_matrix newObject3D_def updateMatrix_def compose_def
          Let_def multiplyMatrices_def applyLinear_def addV_def)
qed

section \<open>The radius lookup\<close>

text \<open>
  C2 does not hold of the code. For an absent object, and for an object without scale
  whose bounding radius is not known, \<open>objectRadius\<close> returns NaN and not 1:
  \<open>undefined * BASE_PLANET_RADIUS\<close> is NaN, which \<open>??\<close> does not replace.
\<close>

theorem objectRadius_absent_is_NaN:
  "objectRadius BASE_PLANET_RADIUS None = NaN
   \<and> objectRadius BASE_PLANET_RADIUS (Some (JsObject None None)) = NaN
   \<and> objectRadius BASE_PLANET_RADIUS (Some (JsObject (Some (BufferGeometry None)) None)) = NaN"
  by (simp add: objectRadius_def nullish_def jsTimes_def toNumber_def)

section \<open>The autopilot when engaged\<close>

lemma aheadScene_target:
  "objects aheadScene 4 =
     newObject3D\<lparr>position := Vector3 0 0 (- 100),
                  geometry := Some (BufferGeometry (Some (Sphere (Vector3 0 0 0) 1)))\<rparr>"
  by (simp add: aheadScene_def blankScene_def)

lemma target_world: "getWorldPosition (objects aheadScene) 4 = Some (Vector3 0 0 (- 100))"
  unfolding getWorldPosition_def
  by (subst matrixWorld.simps)
     (simp add: aheadScene_target newObject3D_def updateMatrix_def compose_def Let_def)

lemma sqrt_10000: "sqrt 10000 = 100"
  using real_sqrt_abs2 [of 100] by simp

lemma target_radius: "objectRadius B (Some (asObject (objects aheadScene 4))) = Num 1"
  by (simp add: aheadScene_target newObject3D_def objectRadius_def asObject_def nullish_def)

lemma craft_up:
  "applyQuaternion (Vector3 0 1 0)
     (quaternion (objects aheadScene (spacecraft.mesh restingCraft))) = Vector3 0 1 0"
  by (simp add: aheadScene_craft restingCraft_def newObject3D_def applyQuaternion_def)

lemma target_direction:
  "normalizeV (subVectors (Vector3 0 0 (- 100)) (Vector3 0 0 0)) = Vector3 0 0 (- 1)"
  by (simp add: subVectors_def normalizeV_def lengthV_def sqrt_10000 divideScalar_def
      multiplyScalar_def)

lemma aligned_angle: "angleTo (Vector3 0 0 (- 1)) (Vector3 0 0 (- 1)) = 0"
  by (simp add: angleTo_def lengthSq_def dot_def clamp_def)

lemma aligned_cross: "crossVectors (Vector3 0 0 (- 1)) (Vector3 0 0 (- 1)) = Vector3 0 0 0"
  by (simp add: crossVectors_def)

lemma target_distance: "distanceTo (Vector3 0 0 0) (Vector3 0 0 (- 100)) = 100"
  by (simp add: distanceTo_def distanceToSquared_def sqrt_10000)

lemma zero_distance: "distanceTo (Vector3 0 0 0) (Vector3 0 0 0) = 0"
  by (simp add: distanceTo_def distanceToSquared_def)

lemma threshold_pos: "0 < degToRad 5"
  by (simp add: degToRad_def)

text \<open>
  The large-angle branch: when the bearing angle exceeds 5 degrees, exactly one of
  \<open>turnLeft\<close> and \<open>turnRight\<close> is set and \<open>thrust\<close> is false.
\<close>

lemma large_angle_turns:
  assumes "getWorldPosition (objects s) tgt = Some worldPosition"
    and "angleTo (applyQuaternion (Vector3 0 0 (- 1)) (quaternion (objects s (spacecraft.mesh sc))))
           (normalizeV (subVectors worldPosition (position (objects s (spacecraft.mesh sc)))))
         > degToRad 5"
  shows "\<exists>inp' s'. updateAiPilot B (Some sc) (Some tgt) inp delta True s = Some (inp', s')
           \<and> (turnLeft inp' \<noteq> turnRight inp') \<and> \<not> thrust inp'"
  using assms by (simp add: updateAiPilot_def Let_def deref_def)

text \<open>
  The facing branch: no turn flag is set, and \<open>thrust\<close> is set exactly when the distance
  from the craft to the cross product of forward and target direction exceeds twice the
  radius of the target.
\<close>

lemma facing_branch_compares_cross:
  assumes "getWorldPosition (objects s) tgt = Some worldPosition"
    and "\<not> angleTo (applyQuaternion (Vector3 0 0 (- 1)) (quaternion (objects s (spacecraft.mesh sc))))
             (normalizeV (subVectors worldPosition (position (objects s (spacecraft.mesh sc)))))
           > degToRad 5"
  shows "\<exists>inp' s'. updateAiPilot B (Some sc) (Some tgt) inp delta True s = Some (inp', s')
           \<and> \<not> turnLeft inp' \<and> \<not> turnRight inp'
           \<and> (thrust inp' \<longleftrightarrow>
                jsGreater
                  (Num (distanceTo (position (objects s (spacecraft.mesh sc)))
                          (crossVectors
                             (applyQuaternion (Vector3 0 0 (- 1))
                                (quaternion (objects s (spacecraft.mesh sc))))
                             (normalizeV
                                (subVectors worldPosition
                                   (position (objects s (spacecraft.mesh sc))))))))
                  (jsTimes (objectRadius B (Some (asObject (objects s tgt)))) (Num 2.0)))"
  using assms by (simp add: updateAiPilot_def Let_def deref_def)

text \<open>
  C4 does not hold of the code in the branch that faces the target. In \<open>aheadScene\<close> the
  craft is at the origin heading along \<open>-Z\<close>, and the target, of radius 1, is straight
  ahead at distance 100: the bearing angle is 0 and the distance exceeds \<open>2.0 * 1\<close>, yet
  \<open>thrust\<close> is left false. \<open>targetPos\<close> is the scratch vector \<open>_updateTempVec3\<close>, which
  holds the cross product by the time the distance is taken, so the distance compared
  is that from the craft to the cross product (here 0).
\<close>

theorem facing_autopilot_withholds_thrust:
  "map_option fst
     (updateAiPilot BASE_PLANET_RADIUS (Some restingCraft) (Some 4) inp delta True aheadScene)
     = Some \<lparr>thrust = False, turnLeft = False, turnRight = False\<rparr>
   \<and> getWorldPosition (objects aheadScene) 4 = Some (Vector3 0 0 (- 100))
   \<and> angleTo
        (applyQuaternion (Vector3 0 0 (- 1))
           (quaternion (objects aheadScene (spacecraft.mesh restingCraft))))
        (normalizeV
           (subVectors (Vector3 0 0 (- 100))
              (position (objects aheadScene (spacecraft.mesh restingCraft))))) = 0
   \<and> distanceTo (position (objects aheadScene (spacecraft.mesh restingCraft)))
        (Vector3 0 0 (- 100)) = 100
   \<and> objectRadius BASE_PLANET_RADIUS (Some (asObject (objects aheadScene 4))) = Num 1"
  using threshold_pos
  by (simp add: updateAiPilot_def target_world craft_position craft_forward craft_up
      target_direction aligned_angle aligned_cross zero_distance target_distance target_radius
      Let_def deref_def jsGreater_def jsTimes_def toNumber_def)

theorem facing_autopilot_withholds_thrust_witness:
  "map_option fst
     (updateAiPilot 1 (Some restingCraft) (Some 4)
        \<lparr>thrust = True, turnLeft = True, turnRight = True\<rparr> (1 / 60) True aheadScene)
     = Some \<lparr>thrust = False, turnLeft = False, turnRight = False\<rparr>"
  using facing_autopilot_withholds_thrust
    [of 1 "\<lparr>thrust = True, turnLeft = True, turnRight = True\<rparr>" "1 / 60"]
  by simp

end
